theory Spec2Isabelle
  imports Main "HOL-Library.Word"
begin

section \<open>The push handler of sw.js\<close>

text \<open>
  The repository is one service-worker script, \<^verbatim>\<open>src/sw.js\<close>:
  \<^verbatim>\<open>
  self.addEventListener('push', function(event) {
    const data = event.data ? event.data.json() : { title: T0, body: B0 };
    event.waitUntil(
      self.registration.showNotification(data.title, {
        body: data.body,
        icon: '/icon.png'
      })
    );
  });
  \<close>
  where \<open>T0\<close> is the four-character literal U+9ED8 U+8BA4 U+6807 U+9898 and \<open>B0\<close> the
  six-character literal U+6CA1 U+6709 U+6D88 U+606F U+5185 U+5BB9.

  The script runs inside a browser. What the browser does is written out as far as the
  script can observe it: the values of the language, the reading of a property, the
  listener table of the worker, the display requests its registration has received, the
  promises it has handed out and the promises an event has been asked to wait for.
\<close>

subsection \<open>Values of the language\<close>

text \<open>
  A string of the language is a sequence of UTF-16 code units; the payload of a push
  message is a sequence of bytes. \<open>ascii\<close> writes a literal whose characters are all
  ASCII, one code unit per character.
\<close>

type_synonym js_string = "16 word list"

type_synonym bytes = "char list"

definition ascii :: "string \<Rightarrow> js_string" where
  "ascii s = map of_char s"

text \<open>
  A number is an IEEE 754 double, kept as its 64 bits (the script never looks into
  one). An object is the list of its own properties in insertion order; the names in an
  object the platform builds are distinct, and a lookup takes the first entry of a name.
\<close>

datatype js_value =
    Undefined
  | Null
  | Boolean bool
  | Number "64 word"
  | String js_string
  | Array "js_value list"
  | Object "(js_string \<times> js_value) list"

datatype js_error = SyntaxError | TypeError

text \<open>
  \<open>get v k\<close> is the property read \<^verbatim>\<open>v.k\<close> for a name \<open>k\<close> that no built-in prototype
  defines and that is no index (\<^verbatim>\<open>title\<close> and \<^verbatim>\<open>body\<close> are such names): reading from
  \<^verbatim>\<open>undefined\<close> or \<^verbatim>\<open>null\<close> throws a \<^verbatim>\<open>TypeError\<close>, an object gives its own property or
  \<^verbatim>\<open>undefined\<close>, every other value gives \<^verbatim>\<open>undefined\<close>.
\<close>

fun get :: "js_value \<Rightarrow> js_string \<Rightarrow> js_error + js_value" where
  "get Undefined k = Inl TypeError"
| "get Null k = Inl TypeError"
| "get (Object props) k = Inr (case map_of props k of Some v \<Rightarrow> v | None \<Rightarrow> Undefined)"
| "get v k = Inr Undefined"

subsection \<open>The worker and the event\<close>

text \<open>
  A promise is identified by the order of its creation. A display request is one call of
  \<^verbatim>\<open>self.registration.showNotification(title, options)\<close> together with the promise the
  call returned, which settles when the display operation does.
\<close>

datatype promise = Promise nat

record notification_options =
  body :: js_value
  icon :: js_value

record display_request =
  title :: js_value
  options :: notification_options
  settles :: promise

text \<open>
  The script holds one function expression, the listener at line 1. The listener table
  names it \<open>PushHandler\<close>; \<open>invoke\<close> below runs it.
\<close>

datatype listener = PushHandler

record worker =
  listeners :: "(js_string \<times> listener) list"
  notifications :: "display_request list"
  promises :: nat

text \<open>
  \<^verbatim>\<open>event.data\<close> is \<^verbatim>\<open>null\<close> for a push message without payload and an object holding the
  payload's bytes otherwise (an object is truthy whatever bytes it holds).
  \<open>extend_lifetime\<close> lists the promises passed to \<^verbatim>\<open>event.waitUntil\<close>: the platform keeps
  the event, and with it the worker, alive until each of them has settled.
\<close>

record push_event =
  data :: "bytes option"
  extend_lifetime :: "promise list"

subsection \<open>The platform calls the script makes\<close>

text \<open>
  \<^verbatim>\<open>addEventListener\<close> appends to the listener table. (The platform skips a listener that
  is already in the table, but a function expression yields a new function object each
  time it is evaluated, so the listener of the script is never skipped.)
\<close>

definition addEventListener :: "worker \<Rightarrow> js_string \<Rightarrow> listener \<Rightarrow> worker" where
  "addEventListener self name callback =
     self\<lparr>listeners := listeners self @ [(name, callback)]\<rparr>"

text \<open>
  \<^verbatim>\<open>showNotification\<close> returns a new promise at once and never throws: a failure of the
  display operation rejects the promise.
\<close>

definition showNotification ::
  "worker \<Rightarrow> js_value \<Rightarrow> notification_options \<Rightarrow> promise \<times> worker" where
  "showNotification self t opts =
     (let p = Promise (promises self)
      in (p, self\<lparr>notifications :=
                     notifications self @ [\<lparr>title = t, options = opts, settles = p\<rparr>],
                   promises := Suc (promises self)\<rparr>))"

text \<open>
  \<^verbatim>\<open>waitUntil\<close>, called while the platform dispatches the event it delivered, adds the
  promise to those the event waits for.
\<close>

definition waitUntil :: "push_event \<Rightarrow> promise \<Rightarrow> push_event" where
  "waitUntil event p = event\<lparr>extend_lifetime := extend_lifetime event @ [p]\<rparr>"

subsection \<open>The script\<close>

text \<open>
  The listener, lines 1 to 9. \<open>json\<close> is \<^verbatim>\<open>event.data.json()\<close>, the platform's parser
  of the payload's bytes: it returns the parsed value or throws. The listener returns
  what it threw, if anything, and the worker and the event as it left them. A throw ends
  the listener where it happens: the parse comes first, then \<^verbatim>\<open>data.title\<close>, then
  \<^verbatim>\<open>data.body\<close>, then the call of \<^verbatim>\<open>showNotification\<close>, then the call of \<^verbatim>\<open>waitUntil\<close>.
  The constant \<^verbatim>\<open>data\<close> of the source is \<open>dat\<close> here, \<open>data\<close> being the field of the event.
\<close>

definition push_handler ::
  "(bytes \<Rightarrow> js_error + js_value) \<Rightarrow> worker \<Rightarrow> push_event
     \<Rightarrow> (js_error + unit) \<times> worker \<times> push_event" where
  "push_handler json self event =
     (case (case data event of
              Some d \<Rightarrow> json d
            | None \<Rightarrow>
                Inr (Object
                  [(ascii ''title'', String [0x9ED8, 0x8BA4, 0x6807, 0x9898]),
                   (ascii ''body'',
                      String [0x6CA1, 0x6709, 0x6D88, 0x606F, 0x5185, 0x5BB9])])) of
        Inl e \<Rightarrow> (Inl e, self, event)
      | Inr dat \<Rightarrow>
          (case get dat (ascii ''title'') of
             Inl e \<Rightarrow> (Inl e, self, event)
           | Inr t \<Rightarrow>
               (case get dat (ascii ''body'') of
                  Inl e \<Rightarrow> (Inl e, self, event)
                | Inr b \<Rightarrow>
                    (case showNotification self t
                            \<lparr>body = b, icon = String (ascii ''/icon.png'')\<rparr> of
                       (p, self') \<Rightarrow> (Inr (), self', waitUntil event p)))))"

fun invoke ::
  "(bytes \<Rightarrow> js_error + js_value) \<Rightarrow> listener \<Rightarrow> worker \<Rightarrow> push_event
     \<Rightarrow> (js_error + unit) \<times> worker \<times> push_event" where
  "invoke json PushHandler = push_handler json"

text \<open>The top level of the script: the one statement that runs when the worker loads it.\<close>

definition sw :: "worker \<Rightarrow> worker" where
  "sw self = addEventListener self (ascii ''push'') PushHandler"

text \<open>
  The display requests a run has added: those of the worker after the run that were not
  there before it.
\<close>

definition displayed :: "worker \<Rightarrow> worker \<Rightarrow> display_request list" where
  "displayed before after = drop (length (notifications before)) (notifications after)"

text \<open>
  A display request is fully populated when neither its heading nor its body is
  \<^verbatim>\<open>undefined\<close>, the value a missing property reads as.
\<close>

definition populated :: "display_request \<Rightarrow> bool" where
  "populated r \<longleftrightarrow> title r \<noteq> Undefined \<and> body (options r) \<noteq> Undefined"

subsection \<open>Concrete inputs for the examples\<close>

text \<open>
  A worker that has loaded nothing yet, three payloads, and a table that answers as the
  platform's parser does on the first two payloads. Every other payload is answered with
  a \<^verbatim>\<open>SyntaxError\<close>; of those the examples use only \<open>truncated\<close>, which is no JSON text.
  The theorems below hold for every parser; the table only instantiates them.
\<close>

definition fresh :: worker where
  "fresh = \<lparr>listeners = [], notifications = [], promises = 0\<rparr>"

definition meeting :: bytes where
  \<open>meeting = ''{"title":"Meeting","body":"Starts in 5 minutes"}''\<close>

definition meeting_title_only :: bytes where
  \<open>meeting_title_only = ''{"title":"Meeting"}''\<close>

definition truncated :: bytes where
  \<open>truncated = ''{"title":''\<close>

definition example_json :: "bytes \<Rightarrow> js_error + js_value" where
  "example_json d =
     (if d = meeting then
        Inr (Object [(ascii ''title'', String (ascii ''Meeting'')),
                     (ascii ''body'', String (ascii ''Starts in 5 minutes''))])
      else if d = meeting_title_only then
        Inr (Object [(ascii ''title'', String (ascii ''Meeting''))])
      else Inl SyntaxError)"

section \<open>Properties of the listener\<close>

lemmas run_defs =
  push_handler_def showNotification_def waitUntil_def Let_def displayed_def sw_def
  fresh_def addEventListener_def example_json_def meeting_def meeting_title_only_def
  ascii_def

text \<open>
  Every run of the listener ends in one of two ways: it throws and leaves the worker and
  the event untouched, or it returns after one display request, made with the fixed icon
  and a new promise, and one call of \<^verbatim>\<open>waitUntil\<close> with that promise.
\<close>

lemma push_handler_cases:
  "(\<exists>e. push_handler json self event = (Inl e, self, event)) \<or>
   (\<exists>t b. push_handler json self event =
      (Inr (),
       self\<lparr>notifications := notifications self @
               [\<lparr>title = t,
                 options = \<lparr>body = b, icon = String (ascii ''/icon.png'')\<rparr>,
                 settles = Promise (promises self)\<rparr>],
            promises := Suc (promises self)\<rparr>,
       event\<lparr>extend_lifetime := extend_lifetime event @ [Promise (promises self)]\<rparr>))"
  by (auto simp: push_handler_def showNotification_def waitUntil_def Let_def
      split: sum.splits option.splits)

subsection \<open>A payload with title and body\<close>

text \<open>
  C1. When the event carries a payload that parses to an object with a \<^verbatim>\<open>title\<close>
  \<open>T\<close> and a \<^verbatim>\<open>body\<close> \<open>B\<close>, the listener returns normally, and the display requests of the
  worker are those it had before followed by exactly one more: heading \<open>T\<close>, options with
  body \<open>B\<close> and icon \<^verbatim>\<open>/icon.png\<close>.
\<close>

theorem push_title_body:
  assumes "data event = Some d"
    and "json d = Inr (Object props)"
    and "map_of props (ascii ''title'') = Some T"
    and "map_of props (ascii ''body'') = Some B"
  shows "push_handler json self event =
     (Inr (),
      self\<lparr>notifications := notifications self @
              [\<lparr>title = T,
                options = \<lparr>body = B, icon = String (ascii ''/icon.png'')\<rparr>,
                settles = Promise (promises self)\<rparr>],
           promises := Suc (promises self)\<rparr>,
      event\<lparr>extend_lifetime := extend_lifetime event @ [Promise (promises self)]\<rparr>)"
  using assms by (simp add: push_handler_def showNotification_def waitUntil_def Let_def)

text \<open>
  The example of the specification: the payload \<open>meeting\<close>, delivered to a worker that has
  just loaded the script.
\<close>

theorem push_title_body_witness:
  "example_json meeting =
     Inr (Object [(ascii ''title'', String (ascii ''Meeting'')),
                  (ascii ''body'', String (ascii ''Starts in 5 minutes''))]) \<and>
   push_handler example_json (sw fresh) \<lparr>data = Some meeting, extend_lifetime = []\<rparr> =
     (Inr (),
      \<lparr>listeners = [(ascii ''push'', PushHandler)],
       notifications =
         [\<lparr>title = String (ascii ''Meeting''),
           options = \<lparr>body = String (ascii ''Starts in 5 minutes''),
                      icon = String (ascii ''/icon.png'')\<rparr>,
           settles = Promise 0\<rparr>],
       promises = 1\<rparr>,
      \<lparr>data = Some meeting, extend_lifetime = [Promise 0]\<rparr>)"
proof -
  let ?props = "[(ascii ''title'', String (ascii ''Meeting'')),
                 (ascii ''body'', String (ascii ''Starts in 5 minutes''))]"
  have d: "data \<lparr>data = Some meeting, extend_lifetime = []\<rparr> = Some meeting"
    by simp
  have parsed: "example_json meeting = Inr (Object ?props)"
    by (simp add: example_json_def)
  have t: "map_of ?props (ascii ''title'') = Some (String (ascii ''Meeting''))"
    by simp
  have b: "map_of ?props (ascii ''body'') = Some (String (ascii ''Starts in 5 minutes''))"
    by (simp add: ascii_def)
  show ?thesis
    using parsed
      push_title_body [where json = example_json and d = meeting and self = "sw fresh",
        OF d parsed t b]
    by (simp add: sw_def fresh_def addEventListener_def)
qed

subsection \<open>No payload\<close>

text \<open>
  C2. When the event carries no payload, the listener returns normally after exactly one
  display request: the heading is the fallback title (U+9ED8 U+8BA4 U+6807 U+9898), the
  body the fallback body (U+6CA1 U+6709 U+6D88 U+606F U+5185 U+5BB9), the icon
  \<^verbatim>\<open>/icon.png\<close>.
\<close>

theorem push_without_data:
  assumes "data event = None"
  shows "push_handler json self event =
     (Inr (),
      self\<lparr>notifications := notifications self @
              [\<lparr>title = String [0x9ED8, 0x8BA4, 0x6807, 0x9898],
                options =
                  \<lparr>body = String [0x6CA1, 0x6709, 0x6D88, 0x606F, 0x5185, 0x5BB9],
                   icon = String (ascii ''/icon.png'')\<rparr>,
                settles = Promise (promises self)\<rparr>],
           promises := Suc (promises self)\<rparr>,
      event\<lparr>extend_lifetime := extend_lifetime event @ [Promise (promises self)]\<rparr>)"
  using assms
  by (simp add: push_handler_def showNotification_def waitUntil_def Let_def ascii_def)

theorem push_without_data_witness:
  "push_handler example_json (sw fresh) \<lparr>data = None, extend_lifetime = []\<rparr> =
     (Inr (),
      \<lparr>listeners = [(ascii ''push'', PushHandler)],
       notifications =
         [\<lparr>title = String [0x9ED8, 0x8BA4, 0x6807, 0x9898],
           options =
             \<lparr>body = String [0x6CA1, 0x6709, 0x6D88, 0x606F, 0x5185, 0x5BB9],
              icon = String (ascii ''/icon.png'')\<rparr>,
           settles = Promise 0\<rparr>],
       promises = 1\<rparr>,
      \<lparr>data = None, extend_lifetime = [Promise 0]\<rparr>)"
proof -
  have d: "data \<lparr>data = None, extend_lifetime = []\<rparr> = None"
    by simp
  show ?thesis
    using push_without_data [where json = example_json and self = "sw fresh", OF d]
    by (simp add: sw_def fresh_def addEventListener_def)
qed

subsection \<open>A payload with a title and no body\<close>

text \<open>
  C3. When the event carries a payload that parses to an object with a \<^verbatim>\<open>title\<close> \<open>T\<close>
  and no \<^verbatim>\<open>body\<close>, the one display request has heading \<open>T\<close> and the body \<^verbatim>\<open>undefined\<close>,
  which is not the fallback body. The fallback is for the event without payload only:
  here a payload is there, and the heading and the body of the display request are what
  the parsed payload reads as under \<^verbatim>\<open>title\<close> and \<^verbatim>\<open>body\<close>.
\<close>

theorem push_title_only:
  assumes "data event = Some d"
    and "json d = Inr (Object props)"
    and "map_of props (ascii ''title'') = Some T"
    and "map_of props (ascii ''body'') = None"
  shows "push_handler json self event =
     (Inr (),
      self\<lparr>notifications := notifications self @
              [\<lparr>title = T,
                options = \<lparr>body = Undefined, icon = String (ascii ''/icon.png'')\<rparr>,
                settles = Promise (promises self)\<rparr>],
           promises := Suc (promises self)\<rparr>,
      event\<lparr>extend_lifetime := extend_lifetime event @ [Promise (promises self)]\<rparr>) \<and>
    (\<forall>r \<in> set (displayed self (fst (snd (push_handler json self event)))).
       body (options r) \<noteq> String [0x6CA1, 0x6709, 0x6D88, 0x606F, 0x5185, 0x5BB9] \<and>
       get (Object props) (ascii ''title'') = Inr (title r) \<and>
       get (Object props) (ascii ''body'') = Inr (body (options r)))"
  using assms
  by (simp add: push_handler_def showNotification_def waitUntil_def Let_def displayed_def)

theorem push_title_only_witness:
  "example_json meeting_title_only =
     Inr (Object [(ascii ''title'', String (ascii ''Meeting''))]) \<and>
   push_handler example_json (sw fresh)
       \<lparr>data = Some meeting_title_only, extend_lifetime = []\<rparr> =
     (Inr (),
      \<lparr>listeners = [(ascii ''push'', PushHandler)],
       notifications =
         [\<lparr>title = String (ascii ''Meeting''),
           options = \<lparr>body = Undefined, icon = String (ascii ''/icon.png'')\<rparr>,
           settles = Promise 0\<rparr>],
       promises = 1\<rparr>,
      \<lparr>data = Some meeting_title_only, extend_lifetime = [Promise 0]\<rparr>)"
proof -
  let ?props = "[(ascii ''title'', String (ascii ''Meeting''))]"
  have d: "data \<lparr>data = Some meeting_title_only, extend_lifetime = []\<rparr> =
      Some meeting_title_only"
    by simp
  have parsed: "example_json meeting_title_only = Inr (Object ?props)"
    by (simp add: example_json_def meeting_def meeting_title_only_def)
  have t: "map_of ?props (ascii ''title'') = Some (String (ascii ''Meeting''))"
    by simp
  have b: "map_of ?props (ascii ''body'') = None"
    by (simp add: ascii_def)
  show ?thesis
    using parsed
      push_title_only [where json = example_json and d = meeting_title_only
        and self = "sw fresh", OF d parsed t b]
    by (simp add: sw_def fresh_def addEventListener_def)
qed

subsection \<open>A payload that does not parse\<close>

text \<open>
  C4. When the event carries a payload on which the parser throws, the listener throws
  the same error: nothing catches it, no fallback replaces the payload, no display
  request is made, and the worker and the event are as they were.
\<close>

theorem push_malformed_throws:
  assumes "data event = Some d"
    and "json d = Inl e"
  shows "push_handler json self event = (Inl e, self, event) \<and>
    displayed self (fst (snd (push_handler json self event))) = []"
  using assms by (simp add: push_handler_def displayed_def)

theorem push_malformed_throws_witness:
  "example_json truncated = Inl SyntaxError \<and>
   push_handler example_json (sw fresh) \<lparr>data = Some truncated, extend_lifetime = []\<rparr> =
     (Inl SyntaxError,
      \<lparr>listeners = [(ascii ''push'', PushHandler)], notifications = [], promises = 0\<rparr>,
      \<lparr>data = Some truncated, extend_lifetime = []\<rparr>)"
proof -
  have d: "data \<lparr>data = Some truncated, extend_lifetime = []\<rparr> = Some truncated"
    by simp
  have parsed: "example_json truncated = Inl SyntaxError"
    by (simp add: example_json_def meeting_def meeting_title_only_def truncated_def)
  show ?thesis
    using parsed
      push_malformed_throws [where json = example_json and d = truncated
        and self = "sw fresh", OF d parsed]
    by (simp add: sw_def fresh_def addEventListener_def)
qed

subsection \<open>Is the payload handed to the display call always fully populated?\<close>

text \<open>
  C5 as stated (every payload handed to the display call is fully populated) does not
  hold. The payload \<open>meeting_title_only\<close> has no \<^verbatim>\<open>body\<close>: the listener, run by a worker
  that has just loaded the script, makes one display request, and its body is
  \<^verbatim>\<open>undefined\<close>.
\<close>

theorem push_payload_not_populated:
  "displayed (sw fresh)
     (fst (snd (push_handler example_json (sw fresh)
        \<lparr>data = Some meeting_title_only, extend_lifetime = []\<rparr>))) =
     [\<lparr>title = String (ascii ''Meeting''),
       options = \<lparr>body = Undefined, icon = String (ascii ''/icon.png'')\<rparr>,
       settles = Promise 0\<rparr>] \<and>
   \<not> populated
     \<lparr>title = String (ascii ''Meeting''),
      options = \<lparr>body = Undefined, icon = String (ascii ''/icon.png'')\<rparr>,
      settles = Promise 0\<rparr>"
  by (simp add: run_defs populated_def)

text \<open>
  C5, amended. A display request is fully populated in two cases, and what is handed to
  the display call always comes from one place only.
  \<^item> The event carries no payload: the one display request holds the two fallback
    literals, and is fully populated.
  \<^item> The event carries a payload that parses to an object: the one display request holds
    the object's own \<^verbatim>\<open>title\<close> and \<^verbatim>\<open>body\<close>, a property the object lacks being handed on
    as \<^verbatim>\<open>undefined\<close> and never replaced by a fallback. So the request is fully populated
    exactly when both properties are present (neither reads as \<^verbatim>\<open>undefined\<close>).
  \<^item> The event carries a payload that parses to any value \<open>v\<close>: the heading and the body
    of every display request of the run are what \<open>v\<close> reads as under \<^verbatim>\<open>title\<close> and
    \<^verbatim>\<open>body\<close>.
\<close>

theorem push_payload_populated:
  "(data event = None \<longrightarrow>
      displayed self (fst (snd (push_handler json self event))) =
        [\<lparr>title = String [0x9ED8, 0x8BA4, 0x6807, 0x9898],
          options =
            \<lparr>body = String [0x6CA1, 0x6709, 0x6D88, 0x606F, 0x5185, 0x5BB9],
             icon = String (ascii ''/icon.png'')\<rparr>,
          settles = Promise (promises self)\<rparr>] \<and>
      (\<forall>r \<in> set (displayed self (fst (snd (push_handler json self event)))).
         populated r)) \<and>
   (data event = Some d \<and> json d = Inr (Object props) \<longrightarrow>
      displayed self (fst (snd (push_handler json self event))) =
        [\<lparr>title =
            (case map_of props (ascii ''title'') of Some x \<Rightarrow> x | None \<Rightarrow> Undefined),
          options =
            \<lparr>body =
               (case map_of props (ascii ''body'') of Some x \<Rightarrow> x | None \<Rightarrow> Undefined),
             icon = String (ascii ''/icon.png'')\<rparr>,
          settles = Promise (promises self)\<rparr>] \<and>
      ((\<forall>r \<in> set (displayed self (fst (snd (push_handler json self event)))).
          populated r) \<longleftrightarrow>
       (\<exists>T B. map_of props (ascii ''title'') = Some T \<and> T \<noteq> Undefined \<and>
              map_of props (ascii ''body'') = Some B \<and> B \<noteq> Undefined))) \<and>
   (data event = Some d \<and> json d = Inr v \<longrightarrow>
      (\<forall>r \<in> set (displayed self (fst (snd (push_handler json self event)))).
         get v (ascii ''title'') = Inr (title r) \<and>
         get v (ascii ''body'') = Inr (body (options r))))"
proof (intro conjI impI)
  assume "data event = None"
  then show "displayed self (fst (snd (push_handler json self event))) =
        [\<lparr>title = String [0x9ED8, 0x8BA4, 0x6807, 0x9898],
          options =
            \<lparr>body = String [0x6CA1, 0x6709, 0x6D88, 0x606F, 0x5185, 0x5BB9],
             icon = String (ascii ''/icon.png'')\<rparr>,
          settles = Promise (promises self)\<rparr>]"
    by (simp add: push_handler_def showNotification_def waitUntil_def Let_def
        displayed_def ascii_def)
  then show "\<forall>r \<in> set (displayed self (fst (snd (push_handler json self event)))).
      populated r"
    by (simp add: populated_def)
next
  assume present: "data event = Some d \<and> json d = Inr (Object props)"
  then show shown: "displayed self (fst (snd (push_handler json self event))) =
        [\<lparr>title =
            (case map_of props (ascii ''title'') of Some x \<Rightarrow> x | None \<Rightarrow> Undefined),
          options =
            \<lparr>body =
               (case map_of props (ascii ''body'') of Some x \<Rightarrow> x | None \<Rightarrow> Undefined),
             icon = String (ascii ''/icon.png'')\<rparr>,
          settles = Promise (promises self)\<rparr>]"
    by (simp add: push_handler_def showNotification_def waitUntil_def Let_def displayed_def)
  show "(\<forall>r \<in> set (displayed self (fst (snd (push_handler json self event)))).
          populated r) \<longleftrightarrow>
       (\<exists>T B. map_of props (ascii ''title'') = Some T \<and> T \<noteq> Undefined \<and>
              map_of props (ascii ''body'') = Some B \<and> B \<noteq> Undefined)"
    unfolding shown by (auto simp: populated_def split: option.splits)
next
  assume "data event = Some d \<and> json d = Inr v"
  then show "\<forall>r \<in> set (displayed self (fst (snd (push_handler json self event)))).
      get v (ascii ''title'') = Inr (title r) \<and>
      get v (ascii ''body'') = Inr (body (options r))"
    by (simp add: push_handler_def showNotification_def waitUntil_def Let_def displayed_def
        split: sum.splits)
qed

text \<open>
  The three cases at concrete inputs, each delivered to a worker that has just loaded the
  script: the event without payload, the event carrying \<open>meeting\<close>, and the event carrying
  \<open>meeting_title_only\<close>, whose missing body is handed on as \<^verbatim>\<open>undefined\<close>.
\<close>

theorem push_payload_populated_witness:
  "displayed (sw fresh)
     (fst (snd (push_handler example_json (sw fresh)
        \<lparr>data = None, extend_lifetime = []\<rparr>))) =
     [\<lparr>title = String [0x9ED8, 0x8BA4, 0x6807, 0x9898],
       options =
         \<lparr>body = String [0x6CA1, 0x6709, 0x6D88, 0x606F, 0x5185, 0x5BB9],
          icon = String (ascii ''/icon.png'')\<rparr>,
       settles = Promise 0\<rparr>] \<and>
   populated (hd (displayed (sw fresh)
     (fst (snd (push_handler example_json (sw fresh)
        \<lparr>data = None, extend_lifetime = []\<rparr>))))) \<and>
   example_json meeting =
     Inr (Object [(ascii ''title'', String (ascii ''Meeting'')),
                  (ascii ''body'', String (ascii ''Starts in 5 minutes''))]) \<and>
   displayed (sw fresh)
     (fst (snd (push_handler example_json (sw fresh)
        \<lparr>data = Some meeting, extend_lifetime = []\<rparr>))) =
     [\<lparr>title = String (ascii ''Meeting''),
       options = \<lparr>body = String (ascii ''Starts in 5 minutes''),
                  icon = String (ascii ''/icon.png'')\<rparr>,
       settles = Promise 0\<rparr>] \<and>
   populated (hd (displayed (sw fresh)
     (fst (snd (push_handler example_json (sw fresh)
        \<lparr>data = Some meeting, extend_lifetime = []\<rparr>))))) \<and>
   example_json meeting_title_only =
     Inr (Object [(ascii ''title'', String (ascii ''Meeting''))]) \<and>
   displayed (sw fresh)
     (fst (snd (push_handler example_json (sw fresh)
        \<lparr>data = Some meeting_title_only, extend_lifetime = []\<rparr>))) =
     [\<lparr>title = String (ascii ''Meeting''),
       options = \<lparr>body = Undefined, icon = String (ascii ''/icon.png'')\<rparr>,
       settles = Promise 0\<rparr>] \<and>
   get (Object [(ascii ''title'', String (ascii ''Meeting''))]) (ascii ''body'') =
     Inr (body (options (hd (displayed (sw fresh)
       (fst (snd (push_handler example_json (sw fresh)
          \<lparr>data = Some meeting_title_only, extend_lifetime = []\<rparr>)))))))"
proof -
  let ?both = "[(ascii ''title'', String (ascii ''Meeting'')),
                (ascii ''body'', String (ascii ''Starts in 5 minutes''))]"
  let ?one = "[(ascii ''title'', String (ascii ''Meeting''))]"
  have both: "example_json meeting = Inr (Object ?both)"
    by (simp add: example_json_def)
  have one: "example_json meeting_title_only = Inr (Object ?one)"
    by (simp add: example_json_def meeting_def meeting_title_only_def)
  have fields:
    "map_of ?both (ascii ''title'') = Some (String (ascii ''Meeting''))"
    "map_of ?both (ascii ''body'') = Some (String (ascii ''Starts in 5 minutes''))"
    "map_of ?one (ascii ''title'') = Some (String (ascii ''Meeting''))"
    "map_of ?one (ascii ''body'') = None"
    by (simp_all add: ascii_def)
  have promises: "promises (sw fresh) = 0"
    by (simp add: sw_def fresh_def addEventListener_def)
  have absent: "data \<lparr>data = None, extend_lifetime = []\<rparr> = None"
    by simp
  have d_both: "data \<lparr>data = Some meeting, extend_lifetime = []\<rparr> = Some meeting \<and>
      example_json meeting = Inr (Object ?both)"
    using both by simp
  have d_one: "data \<lparr>data = Some meeting_title_only, extend_lifetime = []\<rparr> =
        Some meeting_title_only \<and>
      example_json meeting_title_only = Inr (Object ?one)"
    using one by simp
  note run_absent =
    push_payload_populated [where json = example_json and self = "sw fresh"
      and event = "\<lparr>data = None, extend_lifetime = []\<rparr>"
      and d = meeting and props = ?both and v = "Object ?both",
      THEN conjunct1, THEN mp, OF absent]
  note run_both =
    push_payload_populated [where json = example_json and self = "sw fresh"
      and event = "\<lparr>data = Some meeting, extend_lifetime = []\<rparr>"
      and d = meeting and props = ?both and v = "Object ?both",
      THEN conjunct2, THEN conjunct1, THEN mp, OF d_both]
  note run_one =
    push_payload_populated [where json = example_json and self = "sw fresh"
      and event = "\<lparr>data = Some meeting_title_only, extend_lifetime = []\<rparr>"
      and d = meeting_title_only and props = ?one and v = "Object ?one",
      THEN conjunct2, THEN conjunct1, THEN mp, OF d_one]
  have shown_absent: "displayed (sw fresh)
     (fst (snd (push_handler example_json (sw fresh)
        \<lparr>data = None, extend_lifetime = []\<rparr>))) =
     [\<lparr>title = String [0x9ED8, 0x8BA4, 0x6807, 0x9898],
       options =
         \<lparr>body = String [0x6CA1, 0x6709, 0x6D88, 0x606F, 0x5185, 0x5BB9],
          icon = String (ascii ''/icon.png'')\<rparr>,
       settles = Promise 0\<rparr>]"
    using run_absent [THEN conjunct1] by (simp only: promises)
  have shown_both: "displayed (sw fresh)
     (fst (snd (push_handler example_json (sw fresh)
        \<lparr>data = Some meeting, extend_lifetime = []\<rparr>))) =
     [\<lparr>title = String (ascii ''Meeting''),
       options = \<lparr>body = String (ascii ''Starts in 5 minutes''),
                  icon = String (ascii ''/icon.png'')\<rparr>,
       settles = Promise 0\<rparr>]"
    using run_both [THEN conjunct1] by (simp only: promises fields option.case)
  have shown_one: "displayed (sw fresh)
     (fst (snd (push_handler example_json (sw fresh)
        \<lparr>data = Some meeting_title_only, extend_lifetime = []\<rparr>))) =
     [\<lparr>title = String (ascii ''Meeting''),
       options = \<lparr>body = Undefined, icon = String (ascii ''/icon.png'')\<rparr>,
       settles = Promise 0\<rparr>]"
    using run_one [THEN conjunct1] by (simp only: promises fields option.case)
  have pop_absent: "populated (hd (displayed (sw fresh)
     (fst (snd (push_handler example_json (sw fresh)
        \<lparr>data = None, extend_lifetime = []\<rparr>)))))"
    using run_absent [THEN conjunct2] by (simp add: shown_absent)
  have pop_both: "populated (hd (displayed (sw fresh)
     (fst (snd (push_handler example_json (sw fresh)
        \<lparr>data = Some meeting, extend_lifetime = []\<rparr>)))))"
    using run_both [THEN conjunct2] fields(1,2) by (simp add: shown_both)
  note read =
    push_payload_populated [where json = example_json and self = "sw fresh"
      and event = "\<lparr>data = Some meeting_title_only, extend_lifetime = []\<rparr>"
      and d = meeting_title_only and props = ?one and v = "Object ?one",
      THEN conjunct2, THEN conjunct2, THEN mp, OF d_one]
  have read_one: "get (Object ?one) (ascii ''body'') =
     Inr (body (options (hd (displayed (sw fresh)
       (fst (snd (push_handler example_json (sw fresh)
          \<lparr>data = Some meeting_title_only, extend_lifetime = []\<rparr>)))))))"
    using read by (simp add: shown_one ascii_def)
  show ?thesis
    using both one shown_absent pop_absent shown_both pop_both shown_one read_one
    by (intro conjI)
qed

subsection \<open>At most one display request, tied to the event\<close>

text \<open>
  C6. Whatever the event carries (no payload, a payload that parses, a payload that does
  not), a run of the listener keeps the display requests the worker had and adds at most
  one.
\<close>

theorem push_displays_at_most_once:
  "notifications (fst (snd (push_handler json self event))) =
     notifications self @ displayed self (fst (snd (push_handler json self event))) \<and>
   length (displayed self (fst (snd (push_handler json self event)))) \<le> 1"
  using push_handler_cases [of json self event]
  by (auto simp: displayed_def)

text \<open>
  C7. The promises a run of the listener passes to \<^verbatim>\<open>event.waitUntil\<close> are exactly the
  promises of the display requests it makes: each display request of the run has its
  promise among those the event waits for afterwards, so the platform keeps the event
  alive until the display operation has settled.
\<close>

theorem push_waits_for_display:
  "extend_lifetime (snd (snd (push_handler json self event))) =
     extend_lifetime event @
       map settles (displayed self (fst (snd (push_handler json self event)))) \<and>
   (\<forall>r \<in> set (displayed self (fst (snd (push_handler json self event)))).
      settles r \<in> set (extend_lifetime (snd (snd (push_handler json self event)))))"
  using push_handler_cases [of json self event]
  by (auto simp: displayed_def)

theorem push_waits_for_display_witness:
  "displayed (sw fresh)
     (fst (snd (push_handler example_json (sw fresh)
        \<lparr>data = Some meeting, extend_lifetime = []\<rparr>))) \<noteq> [] \<and>
   settles (hd (displayed (sw fresh)
     (fst (snd (push_handler example_json (sw fresh)
        \<lparr>data = Some meeting, extend_lifetime = []\<rparr>))))) \<in>
     set (extend_lifetime (snd (snd (push_handler example_json (sw fresh)
        \<lparr>data = Some meeting, extend_lifetime = []\<rparr>))))"
proof -
  have shown: "displayed (sw fresh)
     (fst (snd (push_handler example_json (sw fresh)
        \<lparr>data = Some meeting, extend_lifetime = []\<rparr>))) \<noteq> []"
    by (simp add: run_defs)
  show ?thesis
    using shown
      push_waits_for_display [of example_json "sw fresh"
        "\<lparr>data = Some meeting, extend_lifetime = []\<rparr>"]
    by simp
qed

subsection \<open>The icon\<close>

text \<open>
  C8. Every display request a run of the listener makes, whatever the event carries, has
  the icon \<^verbatim>\<open>/icon.png\<close> in its options.
\<close>

theorem push_icon_fixed:
  "\<forall>r \<in> set (displayed self (fst (snd (push_handler json self event)))).
     icon (options r) = String (ascii ''/icon.png'')"
  using push_handler_cases [of json self event]
  by (auto simp: displayed_def)

theorem push_icon_fixed_witness:
  "displayed (sw fresh)
     (fst (snd (push_handler example_json (sw fresh)
        \<lparr>data = Some meeting_title_only, extend_lifetime = []\<rparr>))) \<noteq> [] \<and>
   icon (options (hd (displayed (sw fresh)
     (fst (snd (push_handler example_json (sw fresh)
        \<lparr>data = Some meeting_title_only, extend_lifetime = []\<rparr>)))))) =
     String (ascii ''/icon.png'')"
proof -
  have shown: "displayed (sw fresh)
     (fst (snd (push_handler example_json (sw fresh)
        \<lparr>data = Some meeting_title_only, extend_lifetime = []\<rparr>))) \<noteq> []"
    by (simp add: run_defs)
  show ?thesis
    using shown
      push_icon_fixed [of "sw fresh" example_json
        "\<lparr>data = Some meeting_title_only, extend_lifetime = []\<rparr>"]
    by simp
qed

subsection \<open>The registration\<close>

text \<open>
  C9. Loading the script changes the worker in one way only: it appends one entry to the
  listener table, the listener of the script under the event type \<^verbatim>\<open>push\<close>. A worker
  that had no listener has exactly this one afterwards. The registration is not
  repeated later: a run of the listener leaves the listener table as it was.
\<close>

theorem sw_registers_push_once:
  "sw self = self\<lparr>listeners := listeners self @ [(ascii ''push'', PushHandler)]\<rparr> \<and>
   listeners (sw fresh) = [(ascii ''push'', PushHandler)] \<and>
   invoke json PushHandler = push_handler json \<and>
   listeners (fst (snd (push_handler json self event))) = listeners self"
  using push_handler_cases [of json self event]
  by (auto simp: sw_def addEventListener_def fresh_def)

subsection \<open>Determinism\<close>

text \<open>
  C10. Two events that carry the same payload, or both none, have the same outcome,
  whatever else differs between them and between the workers that receive them: the
  listener throws the same error or returns normally in both runs, and the display
  requests of the two runs agree in heading, body and icon.
\<close>

theorem push_handler_deterministic:
  assumes "data event = data event'"
  shows "fst (push_handler json self event) = fst (push_handler json self' event') \<and>
    map (\<lambda>r. (title r, options r))
        (displayed self (fst (snd (push_handler json self event)))) =
    map (\<lambda>r. (title r, options r))
        (displayed self' (fst (snd (push_handler json self' event'))))"
  using assms
  by (simp add: push_handler_def showNotification_def waitUntil_def Let_def displayed_def
      split: sum.splits option.splits)

text \<open>
  The same payload, delivered once to a worker that has just loaded the script and once,
  in an event that already waits for a promise, to a worker that has made a display
  request before.
\<close>

theorem push_handler_deterministic_witness:
  "data \<lparr>data = Some meeting, extend_lifetime = []\<rparr> =
     data \<lparr>data = Some meeting, extend_lifetime = [Promise 0]\<rparr> \<and>
   fst (push_handler example_json (sw fresh)
          \<lparr>data = Some meeting, extend_lifetime = []\<rparr>) =
   fst (push_handler example_json
          (fst (snd (push_handler example_json (sw fresh)
             \<lparr>data = None, extend_lifetime = []\<rparr>)))
          \<lparr>data = Some meeting, extend_lifetime = [Promise 0]\<rparr>) \<and>
   map (\<lambda>r. (title r, options r))
     (displayed (sw fresh)
        (fst (snd (push_handler example_json (sw fresh)
           \<lparr>data = Some meeting, extend_lifetime = []\<rparr>)))) =
   map (\<lambda>r. (title r, options r))
     (displayed
        (fst (snd (push_handler example_json (sw fresh)
           \<lparr>data = None, extend_lifetime = []\<rparr>)))
        (fst (snd (push_handler example_json
           (fst (snd (push_handler example_json (sw fresh)
              \<lparr>data = None, extend_lifetime = []\<rparr>)))
           \<lparr>data = Some meeting, extend_lifetime = [Promise 0]\<rparr>))))"
proof -
  have d: "data \<lparr>data = Some meeting, extend_lifetime = []\<rparr> =
      data \<lparr>data = Some meeting, extend_lifetime = [Promise 0]\<rparr>"
    by simp
  show ?thesis
    using d
      push_handler_deterministic [where json = example_json and self = "sw fresh"
        and self' = "fst (snd (push_handler example_json (sw fresh)
             \<lparr>data = None, extend_lifetime = []\<rparr>))", OF d]
    by simp
qed

end
